theory Spec2Isabelle
  imports Main
begin

section \<open>Python values used by \<open>tools/paper_search_tool.py\<close>\<close>

text \<open>
  Python \<open>str\<close> values are modelled as \<open>string\<close>: the UTF-8 bytes of the text. Case
  folding (\<open>str.lower\<close>) is modelled on the ASCII letters only, and \<open>str.strip\<close> on the
  ASCII white space characters; every other byte is left alone. Python \<open>int\<close> is \<open>int\<close>,
  \<open>Optional[t]\<close> is \<open>t option\<close> with \<open>None\<close> for Python's \<open>None\<close>.
\<close>

datatype py_error = TypeError | IndexError | AttributeError

definition lower_char :: "char \<Rightarrow> char" where
  "lower_char c =
     (let n = (of_char c :: nat) in if 65 \<le> n \<and> n \<le> 90 then char_of (n + 32) else c)"

definition py_lower :: "string \<Rightarrow> string" where
  "py_lower s = map lower_char s"

definition is_space :: "char \<Rightarrow> bool" where
  "is_space c = (let n = (of_char c :: nat) in (9 \<le> n \<and> n \<le> 13) \<or> (28 \<le> n \<and> n \<le> 32))"

definition py_strip :: "string \<Rightarrow> string" where
  "py_strip s = rev (dropWhile is_space (rev (dropWhile is_space s)))"

fun starts_with :: "string \<Rightarrow> string \<Rightarrow> bool" where
  "starts_with [] s = True"
| "starts_with (c # cs) [] = False"
| "starts_with (c # cs) (d # ds) = (c = d \<and> starts_with cs ds)"

text \<open>\<open>py_in v s\<close> is Python's \<open>v in s\<close> on strings: \<open>v\<close> occurs in \<open>s\<close> as a substring.\<close>

fun py_in :: "string \<Rightarrow> string \<Rightarrow> bool" where
  "py_in v [] = (v = [])"
| "py_in v (c # s) = (starts_with v (c # s) \<or> py_in v s)"

fun py_join :: "string \<Rightarrow> string list \<Rightarrow> string" where
  "py_join sep [] = []"
| "py_join sep [x] = x"
| "py_join sep (x # y # ys) = x @ sep @ py_join sep (y # ys)"

definition digit_char :: "nat \<Rightarrow> char" where
  "digit_char d = char_of (48 + d)"

fun nat_digits :: "nat \<Rightarrow> string" where
  "nat_digits n = (if n < 10 then [digit_char n] else nat_digits (n div 10) @ [digit_char (n mod 10)])"

declare nat_digits.simps [simp del]

text \<open>\<open>str(i)\<close> for an \<open>int\<close>, and the text an f-string gives for an optional \<open>int\<close>.\<close>

definition py_str_int :: "int \<Rightarrow> string" where
  "py_str_int i = (if i < 0 then CHR ''-'' # nat_digits (nat (- i)) else nat_digits (nat i))"

definition py_str_year :: "int option \<Rightarrow> string" where
  "py_str_year y = (case y of None \<Rightarrow> ''None'' | Some i \<Rightarrow> py_str_int i)"

text \<open>Truth values of Python objects, as \<open>if x\<close> and \<open>x or y\<close> read them.\<close>

definition truthy_str :: "string option \<Rightarrow> bool" where
  "truthy_str x = (case x of None \<Rightarrow> False | Some s \<Rightarrow> s \<noteq> [])"

definition truthy_int :: "int option \<Rightarrow> bool" where
  "truthy_int x = (case x of None \<Rightarrow> False | Some i \<Rightarrow> i \<noteq> 0)"

text \<open>\<open>(x or "")\<close> for an optional string.\<close>

definition or_empty :: "string option \<Rightarrow> string" where
  "or_empty x = (case x of None \<Rightarrow> [] | Some s \<Rightarrow> s)"

text \<open>
  \<open>xs[:n]\<close>: the first \<open>n\<close> elements, and for a negative \<open>n\<close> all but the last \<open>-n\<close>.
\<close>

definition py_slice_to :: "int \<Rightarrow> 'a list \<Rightarrow> 'a list" where
  "py_slice_to n xs = (if 0 \<le> n then take (nat n) xs else take (length xs - nat (- n)) xs)"

section \<open>\<open>PaperSearchTool._venue_aliases\<close>\<close>

definition aliases :: "(string \<times> string list) list" where
  "aliases =
    [(''neurips'', [''NeurIPS'', ''NIPS'', ''Neural Information Processing Systems'',
                    ''Advances in Neural Information Processing Systems'']),
     (''icml'', [''ICML'', ''International Conference on Machine Learning'']),
     (''iclr'', [''ICLR'', ''International Conference on Learning Representations'']),
     (''cvpr'', [''CVPR'', ''Computer Vision and Pattern Recognition'']),
     (''iccv'', [''ICCV'', ''International Conference on Computer Vision'']),
     (''eccv'', [''ECCV'', ''European Conference on Computer Vision'']),
     (''aaai'', [''AAAI'', ''Association for the Advancement of Artificial Intelligence'']),
     (''acl'', [''ACL'', ''Association for Computational Linguistics'']),
     (''emnlp'', [''EMNLP'', ''Empirical Methods in Natural Language Processing'']),
     (''kdd'', [''KDD'', ''SIGKDD'', ''Knowledge Discovery and Data Mining'']),
     (''sigir'', [''SIGIR'', ''Information Retrieval'']),
     (''uai'', [''UAI'', ''Uncertainty in Artificial Intelligence'']),
     (''jmlr'', [''JMLR'', ''Journal of Machine Learning Research'']),
     (''tmlr'', [''TMLR'', ''Transactions on Machine Learning Research'']),
     (''tpami'', [''TPAMI'', ''Transactions on Pattern Analysis and Machine Intelligence'']),
     (''tacl'', [''TACL'', ''Transactions of the Association for Computational Linguistics'']),
     (''nature'', [''Nature'']),
     (''science'', [''Science'']),
     (''cell'', [''Cell'']),
     (''pnas'', [''PNAS'', ''Proceedings of the National Academy of Sciences''])]"

text \<open>The loop \<open>for k, vals in aliases.items(): if t == k: return vals\<close>.\<close>

fun first_match :: "string \<Rightarrow> (string \<times> string list) list \<Rightarrow> string list option" where
  "first_match t [] = None"
| "first_match t ((k, vals) # rest) = (if t = k then Some vals else first_match t rest)"

definition venue_aliases :: "string option \<Rightarrow> string list" where
  "venue_aliases v =
     (let t = py_lower (py_strip (or_empty v)) in
      case first_match t aliases of
        Some vals \<Rightarrow> vals
      | None \<Rightarrow> (if truthy_str v then [the v] else []))"

section \<open>Provider responses\<close>

text \<open>
  A JSON object is read with \<open>dict.get\<close>; what the code sees depends on whether the key
  is absent, present with \<open>null\<close>, or present with a value. The values have the types of the
  providers' wire formats.
\<close>

datatype 'a field = Absent | Null | Val 'a

text \<open>\<open>d.get(k)\<close> and \<open>d.get(k, default)\<close>: the default replaces an absent key only.\<close>

definition get :: "'a field \<Rightarrow> 'a option" where
  "get f = (case f of Absent \<Rightarrow> None | Null \<Rightarrow> None | Val v \<Rightarrow> Some v)"

definition get_or :: "'a \<Rightarrow> 'a field \<Rightarrow> 'a option" where
  "get_or d f = (case f of Absent \<Rightarrow> Some d | Null \<Rightarrow> None | Val v \<Rightarrow> Some v)"

text \<open>\<open>(d.get(k) or {}).get(k2)\<close>: the entry \<open>k2\<close> of a nested object that may be missing.\<close>

definition get_nested :: "'a field field \<Rightarrow> 'a option" where
  "get_nested f = (case get f of None \<Rightarrow> None | Some inner \<Rightarrow> get inner)"

text \<open>
  An item of the Semantic Scholar response. The nested objects \<open>externalIds\<close>,
  \<open>openAccessPdf\<close> and \<open>publicationVenue\<close> are given by the one entry the code reads from
  them (\<open>DOI\<close>, \<open>url\<close>, \<open>name\<close>), an author by its \<open>name\<close> entry.
\<close>

record s2_item =
  item_title :: "string field"
  item_year :: "int field"
  item_venue :: "string field"
  item_abstract :: "string field"
  item_citationCount :: "int field"
  item_authors :: "string field list field"
  item_url :: "string field"
  item_externalIds :: "string field field"
  item_openAccessPdf :: "string field field"
  item_publicationVenue :: "string field field"

text \<open>The body of a Semantic Scholar response: a JSON object, given by its entry \<open>data\<close>.\<close>

type_synonym s2_data = "s2_item list field"

text \<open>
  An item of the Crossref response. An element of \<open>author\<close> is a JSON object with the
  entries \<open>given\<close> and \<open>family\<close>, or something that is not an object; \<open>issued\<close> is given
  by its entry \<open>date-parts\<close>, a list of lists of numbers or \<open>null\<close>s.
\<close>

datatype cr_author = AuthorDict (given: "string field") (family: "string field") | NotADict

record cr_item =
  it_title :: "string list field"
  it_author :: "cr_author list field"
  it_issued :: "int option list list field field"
  it_DOI :: "string field"
  it_URL :: "string field"
  it_container_title :: "string list field"

text \<open>The body of a Crossref response, given by \<open>message\<close> and, inside it, \<open>items\<close>.\<close>

type_synonym cr_data = "cr_item list field field"

section \<open>The unified record\<close>

record paper =
  title :: string
  authors :: string
  year :: "int option"
  citations :: "int option"
  venue :: "string option"
  venue_all :: "string option"
  doi :: "string option"
  url :: "string option"
  pdf :: "string option"
  abstract :: string
  source :: string

text \<open>The placeholder texts of the source, as UTF-8 bytes.\<close>

definition no_title :: string where
  "no_title = [CHR ''('', CHR 0xEC, CHR 0xA0, CHR 0x9C, CHR 0xEB, CHR 0xAA, CHR 0xA9, CHR '' '',
               CHR 0xEC, CHR 0x97, CHR 0x86, CHR 0xEC, CHR 0x9D, CHR 0x8C, CHR '')'']"

definition no_authors :: string where
  "no_authors = [CHR ''('', CHR 0xEC, CHR 0xA0, CHR 0x80, CHR 0xEC, CHR 0x9E, CHR 0x90, CHR '' '',
                 CHR 0xEC, CHR 0xA0, CHR 0x95, CHR 0xEB, CHR 0xB3, CHR 0xB4, CHR '' '',
                 CHR 0xEC, CHR 0x97, CHR 0x86, CHR 0xEC, CHR 0x9D, CHR 0x8C, CHR '')'']"

definition no_abstract :: string where
  "no_abstract = [CHR ''('', CHR 0xEC, CHR 0xB4, CHR 0x88, CHR 0xEB, CHR 0xA1, CHR 0x9D, CHR '' '',
                  CHR 0xEC, CHR 0x97, CHR 0x86, CHR 0xEC, CHR 0x9D, CHR 0x8C, CHR '')'']"

text \<open>\<open>x or default\<close> for an optional string and a string default.\<close>

definition or_else :: "string option \<Rightarrow> string \<Rightarrow> string" where
  "or_else x d = (if truthy_str x then the x else d)"

text \<open>\<open>f"https://doi.org/{doi}" if doi else None\<close>, the same line in both clients.\<close>

definition doi_url :: "string option \<Rightarrow> string option" where
  "doi_url d = (if truthy_str d then Some (''https://doi.org/'' @ the d) else None)"

section \<open>\<open>PaperSearchTool._dedupe_key\<close>\<close>

definition dedupe_key :: "paper \<Rightarrow> string" where
  "dedupe_key r =
     (let d = py_lower (or_empty (doi r)) in
      if d \<noteq> [] then ''doi:'' @ d
      else ''title:'' @ py_lower (title r) @ ''|year:'' @ py_str_year (year r))"

section \<open>The network\<close>

text \<open>
  A request is what a client sends; the log of requests is the state every call threads
  through. The world answers a request, given the requests made before it, with a parsed
  JSON body or with the exception that \<open>requests.get\<close>, \<open>raise_for_status\<close> or
  \<open>res.json\<close> raised. The constant parts of a request (headers, the field selection,
  the timeout) are not part of the request value.
\<close>

datatype failure = ConnectionError | Timeout | HTTPError int | JSONDecodeError

datatype 'a response = Raised failure | Json 'a

datatype request =
    S2Get string int
  | CrossrefGet string int "string option"

record world =
  s2_api :: "request list \<Rightarrow> string \<Rightarrow> int \<Rightarrow> s2_data response"
  crossref_api :: "request list \<Rightarrow> string \<Rightarrow> int \<Rightarrow> string option \<Rightarrow> cr_data response"

section \<open>\<open>PaperSearchTool._search_semantic_scholar\<close>\<close>

text \<open>Lines 111 to 115: the two year tests; each needs a bound and a year that are not falsy.\<close>

definition year_skip :: "int option \<Rightarrow> int option \<Rightarrow> s2_item \<Rightarrow> bool" where
  "year_skip year_from year_to item =
     (let yr = get (item_year item) in
      if truthy_int year_from \<and> truthy_int yr \<and> the yr < the year_from then True
      else if truthy_int year_to \<and> truthy_int yr \<and> the yr > the year_to then True
      else False)"

text \<open>
  Lines 111 to 117: whether the loop skips the item (\<open>continue\<close>). In line 116 the
  default of \<open>item.get("citationCount", 0)\<close> replaces an absent entry only, and \<open><\<close>
  between \<open>None\<close> and an \<open>int\<close> raises \<open>TypeError\<close>.
\<close>

definition s2_skip :: "int option \<Rightarrow> int option \<Rightarrow> int option \<Rightarrow> s2_item \<Rightarrow> py_error + bool" where
  "s2_skip year_from year_to min_citations item =
     (if year_skip year_from year_to item then Inr True
      else (case min_citations of
              None \<Rightarrow> Inr False
            | Some m \<Rightarrow>
                (case get_or 0 (item_citationCount item) of
                   None \<Rightarrow> Inl TypeError
                 | Some c \<Rightarrow> Inr (c < m))))"

text \<open>
  Line 120: iterating \<open>item.get("authors", [])\<close> fails on \<open>null\<close>, and \<open>join\<close> fails on
  a name that is \<open>null\<close>.
\<close>

definition s2_authors :: "s2_item \<Rightarrow> py_error + string" where
  "s2_authors item =
     (case get_or [] (item_authors item) of
        None \<Rightarrow> Inl TypeError
      | Some as \<Rightarrow>
          (let names = map (get_or []) as in
           if None \<in> set names then Inl TypeError
           else Inr (or_else (Some (py_join '', '' (map the names))) no_authors)))"

text \<open>Lines 119 to 142: the record appended for an item that is not skipped.\<close>

definition s2_record :: "s2_item \<Rightarrow> py_error + paper" where
  "s2_record item =
     (case s2_authors item of
        Inl e \<Rightarrow> Inl e
      | Inr au \<Rightarrow>
          (let d = get_nested (item_externalIds item);
               venue_simple = get (item_venue item);
               venue_full = get_nested (item_publicationVenue item);
               va = py_join '' | '' (map the (filter truthy_str [venue_simple, venue_full]))
           in Inr \<lparr> title = or_else (get (item_title item)) no_title,
                    authors = au,
                    year = get (item_year item),
                    citations = get (item_citationCount item),
                    venue = venue_simple,
                    venue_all = Some va,
                    doi = doi_url d,
                    url = get (item_url item),
                    pdf = get_nested (item_openAccessPdf item),
                    abstract = or_else (get (item_abstract item)) no_abstract,
                    source = ''Semantic Scholar'' \<rparr>))"

text \<open>The loop of lines 109 to 142; an exception ends it.\<close>

fun s2_loop :: "int option \<Rightarrow> int option \<Rightarrow> int option \<Rightarrow> s2_item list \<Rightarrow> py_error + paper list" where
  "s2_loop year_from year_to min_citations [] = Inr []"
| "s2_loop year_from year_to min_citations (item # rest) =
     (case s2_skip year_from year_to min_citations item of
        Inl e \<Rightarrow> Inl e
      | Inr True \<Rightarrow> s2_loop year_from year_to min_citations rest
      | Inr False \<Rightarrow>
          (case s2_record item of
             Inl e \<Rightarrow> Inl e
           | Inr r \<Rightarrow>
               (case s2_loop year_from year_to min_citations rest of
                  Inl e \<Rightarrow> Inl e
                | Inr out \<Rightarrow> Inr (r # out))))"

text \<open>Lines 108 and 109: \<open>data.get("data", [])\<close>, which cannot be iterated when it is \<open>null\<close>.\<close>

definition s2_parse :: "int option \<Rightarrow> int option \<Rightarrow> int option \<Rightarrow> s2_data \<Rightarrow> py_error + paper list" where
  "s2_parse year_from year_to min_citations data =
     (case get_or [] data of
        None \<Rightarrow> Inl TypeError
      | Some items \<Rightarrow> s2_loop year_from year_to min_citations items)"

definition search_semantic_scholar ::
  "world \<Rightarrow> string \<Rightarrow> int option \<Rightarrow> int option \<Rightarrow> int option \<Rightarrow> int \<Rightarrow> request list
     \<Rightarrow> (py_error + paper list) \<times> request list" where
  "search_semantic_scholar w query year_from year_to min_citations limit log =
     (let lim = max 1 limit in
      (case s2_api w log query lim of
         Raised e \<Rightarrow> Inr []
       | Json data \<Rightarrow> s2_parse year_from year_to min_citations data,
       log @ [S2Get query lim]))"

section \<open>\<open>PaperSearchTool._search_crossref\<close>\<close>

text \<open>What an f-string prints for \<open>a.get(k, '')\<close>: the text, or \<open>None\<close> for a \<open>null\<close>.\<close>

definition fmt_str :: "string option \<Rightarrow> string" where
  "fmt_str x = (case x of None \<Rightarrow> ''None'' | Some s \<Rightarrow> s)"

text \<open>Lines 177 to 179: one name for every element of \<open>author\<close> that is an object.\<close>

fun cr_author_names :: "cr_author list \<Rightarrow> string list" where
  "cr_author_names [] = []"
| "cr_author_names (AuthorDict g f # rest) =
     py_strip (fmt_str (get_or [] g) @ '' '' @ fmt_str (get_or [] f)) # cr_author_names rest"
| "cr_author_names (NotADict # rest) = cr_author_names rest"

definition cr_authors :: "cr_item \<Rightarrow> py_error + string" where
  "cr_authors it =
     (case get_or [] (it_author it) of
        None \<Rightarrow> Inl TypeError
      | Some as \<Rightarrow> Inr (or_else (Some (py_join '', '' (cr_author_names as))) no_authors))"

text \<open>
  Lines 181 to 183: \<open>"date-parts" in it["issued"]\<close> fails when \<open>issued\<close> is \<open>null\<close>, and
  \<open>[0][0]\<close> fails when the first date is an empty list.
\<close>

definition cr_year :: "cr_item \<Rightarrow> py_error + int option" where
  "cr_year it =
     (case it_issued it of
        Absent \<Rightarrow> Inr None
      | Null \<Rightarrow> Inl TypeError
      | Val issued \<Rightarrow>
          (case issued of
             Absent \<Rightarrow> Inr None
           | Null \<Rightarrow> Inr None
           | Val [] \<Rightarrow> Inr None
           | Val ([] # ds) \<Rightarrow> Inl IndexError
           | Val ((y # ys) # ds) \<Rightarrow> Inr y))"

text \<open>\<open>(it.get(k) or [default])[0]\<close> for a list of strings.\<close>

definition first_or :: "string list option \<Rightarrow> string \<Rightarrow> string" where
  "first_or x d = (case x of Some (t # ts) \<Rightarrow> t | _ \<Rightarrow> d)"

text \<open>Lines 176 to 201: the record appended for an item.\<close>

definition cr_record :: "cr_item \<Rightarrow> py_error + paper" where
  "cr_record it =
     (case cr_authors it of
        Inl e \<Rightarrow> Inl e
      | Inr au \<Rightarrow>
          (case cr_year it of
             Inl e \<Rightarrow> Inl e
           | Inr y \<Rightarrow>
               (let d = doi_url (get (it_DOI it));
                    url_final = (if truthy_str d then d else get (it_URL it));
                    c = first_or (get (it_container_title it)) [];
                    venue_title = (if c \<noteq> [] then Some c else None)
                in Inr \<lparr> title = first_or (get (it_title it)) no_title,
                         authors = au,
                         year = y,
                         citations = None,
                         venue = venue_title,
                         venue_all = venue_title,
                         doi = d,
                         url = url_final,
                         pdf = None,
                         abstract = no_abstract,
                         source = ''Crossref'' \<rparr>)))"

fun cr_loop :: "cr_item list \<Rightarrow> py_error + paper list" where
  "cr_loop [] = Inr []"
| "cr_loop (it # rest) =
     (case cr_record it of
        Inl e \<Rightarrow> Inl e
      | Inr r \<Rightarrow> (case cr_loop rest of Inl e \<Rightarrow> Inl e | Inr out \<Rightarrow> Inr (r # out)))"

text \<open>
  Line 175: \<open>data.get("message", {}).get("items", [])\<close>; a \<open>null\<close> message has no
  \<open>get\<close>, and \<open>null\<close> items cannot be iterated.
\<close>

definition cr_parse :: "cr_data \<Rightarrow> py_error + paper list" where
  "cr_parse data =
     (case data of
        Absent \<Rightarrow> Inr []
      | Null \<Rightarrow> Inl AttributeError
      | Val message \<Rightarrow>
          (case get_or [] message of
             None \<Rightarrow> Inl TypeError
           | Some items \<Rightarrow> cr_loop items))"

text \<open>Lines 158 to 164: the \<open>filter\<close> parameter, left out when no bound is given.\<close>

definition cr_filter :: "int option \<Rightarrow> int option \<Rightarrow> string option" where
  "cr_filter year_from year_to =
     (let filters =
            (if truthy_int year_from then [''from-pub-date:'' @ py_str_int (the year_from)] else []) @
            (if truthy_int year_to then [''until-pub-date:'' @ py_str_int (the year_to)] else [])
      in if filters \<noteq> [] then Some (py_join '','' filters) else None)"

definition search_crossref ::
  "world \<Rightarrow> string \<Rightarrow> int option \<Rightarrow> int option \<Rightarrow> int \<Rightarrow> request list
     \<Rightarrow> (py_error + paper list) \<times> request list" where
  "search_crossref w query year_from year_to limit log =
     (let rows = max 1 limit; flt = cr_filter year_from year_to in
      (case crossref_api w log query rows flt of
         Raised e \<Rightarrow> Inr []
       | Json data \<Rightarrow> cr_parse data,
       log @ [CrossrefGet query rows flt]))"

section \<open>\<open>PaperSearchTool.invoke\<close>\<close>

text \<open>Lines 52 to 56: the records of one alias response whose key was not seen yet.\<close>

fun merge_more :: "paper list \<times> string set \<Rightarrow> paper list \<Rightarrow> paper list \<times> string set" where
  "merge_more acc [] = acc"
| "merge_more (results, seen) (r # rest) =
     (let k = dedupe_key r in
      if k \<notin> seen then merge_more (results @ [r], insert k seen) rest
      else merge_more (results, seen) rest)"

text \<open>Lines 43 to 56: one more query for each alias, in order.\<close>

fun alias_loop ::
  "world \<Rightarrow> string \<Rightarrow> int option \<Rightarrow> int option \<Rightarrow> int option \<Rightarrow> int \<Rightarrow> string list
     \<Rightarrow> paper list \<times> string set \<Rightarrow> request list
     \<Rightarrow> (py_error + paper list \<times> string set) \<times> request list" where
  "alias_loop w query year_from year_to min_citations max_results [] acc log = (Inr acc, log)"
| "alias_loop w query year_from year_to min_citations max_results (alias # rest) acc log =
     (case search_semantic_scholar w (query @ '' '' @ alias) year_from year_to min_citations
             max_results log of
        (Inl e, log') \<Rightarrow> (Inl e, log')
      | (Inr more_records, log') \<Rightarrow>
          alias_loop w query year_from year_to min_citations max_results rest
            (merge_more acc more_records) log')"

text \<open>
  Line 41: \<open>venue and venue.strip()\<close>. The parameter \<open>venue\<close> of \<open>invoke\<close> is written
  \<open>venue'\<close>, since \<open>venue\<close> is a field of the record.
\<close>

definition venue_given :: "string option \<Rightarrow> bool" where
  "venue_given venue' = (truthy_str venue' \<and> py_strip (the venue') \<noteq> [])"

text \<open>Line 62: \<open>r.get("venue_all") or r.get("venue") or ""\<close>.\<close>

definition venue_text :: "paper \<Rightarrow> string" where
  "venue_text r =
     (if truthy_str (venue_all r) then the (venue_all r)
      else if truthy_str (venue r) then the (venue r) else [])"

text \<open>Lines 59 to 65, for the stripped and lowered venue \<open>v\<close>.\<close>

definition venue_filter :: "string \<Rightarrow> paper list \<Rightarrow> paper list" where
  "venue_filter v results =
     (let filtered = filter (\<lambda>r. py_in v (py_lower (venue_text r))) results in
      if filtered \<noteq> [] then filtered else results)"

text \<open>Lines 28 to 56: the base query and, for a venue, the alias queries merged into it.\<close>

definition merged_results ::
  "world \<Rightarrow> string \<Rightarrow> int option \<Rightarrow> int option \<Rightarrow> int option \<Rightarrow> string option \<Rightarrow> int
     \<Rightarrow> request list \<Rightarrow> (py_error + paper list) \<times> request list" where
  "merged_results w query year_from year_to min_citations venue' max_results log =
     (case search_semantic_scholar w query year_from year_to min_citations max_results log of
        (Inl e, log1) \<Rightarrow> (Inl e, log1)
      | (Inr base, log1) \<Rightarrow>
          (if venue_given venue' then
             (case alias_loop w query year_from year_to min_citations max_results
                     (venue_aliases venue') (base, set (map dedupe_key base)) log1 of
                (Inl e, log2) \<Rightarrow> (Inl e, log2)
              | (Inr (results, seen), log2) \<Rightarrow> (Inr results, log2))
           else (Inr base, log1)))"

text \<open>Lines 28 to 65: the merged list after the venue filter of lines 59 to 65.\<close>

definition primary_results ::
  "world \<Rightarrow> string \<Rightarrow> int option \<Rightarrow> int option \<Rightarrow> int option \<Rightarrow> string option \<Rightarrow> int
     \<Rightarrow> request list \<Rightarrow> (py_error + paper list) \<times> request list" where
  "primary_results w query year_from year_to min_citations venue' max_results log =
     (case merged_results w query year_from year_to min_citations venue' max_results log of
        (Inl e, log2) \<Rightarrow> (Inl e, log2)
      | (Inr results, log2) \<Rightarrow>
          (Inr (if venue_given venue'
                then venue_filter (py_lower (py_strip (the venue'))) results
                else results), log2))"

text \<open>Lines 28 to 74: the Crossref query replaces an empty list.\<close>

definition untruncated ::
  "world \<Rightarrow> string \<Rightarrow> int option \<Rightarrow> int option \<Rightarrow> int option \<Rightarrow> string option \<Rightarrow> int
     \<Rightarrow> request list \<Rightarrow> (py_error + paper list) \<times> request list" where
  "untruncated w query year_from year_to min_citations venue' max_results log =
     (case primary_results w query year_from year_to min_citations venue' max_results log of
        (Inl e, log2) \<Rightarrow> (Inl e, log2)
      | (Inr results, log2) \<Rightarrow>
          (if results = [] then search_crossref w query year_from year_to max_results log2
           else (Inr results, log2)))"

text \<open>The whole of \<open>invoke\<close>, with line 77.\<close>

definition invoke ::
  "world \<Rightarrow> string \<Rightarrow> int option \<Rightarrow> int option \<Rightarrow> int option \<Rightarrow> string option \<Rightarrow> int
     \<Rightarrow> request list \<Rightarrow> (py_error + paper list) \<times> request list" where
  "invoke w query year_from year_to min_citations venue' max_results log =
     (case untruncated w query year_from year_to min_citations venue' max_results log of
        (Inl e, log3) \<Rightarrow> (Inl e, log3)
      | (Inr results, log3) \<Rightarrow>
          (Inr (if results \<noteq> [] then py_slice_to max_results results else []), log3))"

section \<open>Example inputs\<close>

text \<open>A Semantic Scholar item and a Crossref item with no entry at all.\<close>

definition empty_item :: s2_item where
  "empty_item = \<lparr> item_title = Absent, item_year = Absent, item_venue = Absent,
      item_abstract = Absent, item_citationCount = Absent, item_authors = Absent,
      item_url = Absent, item_externalIds = Absent, item_openAccessPdf = Absent,
      item_publicationVenue = Absent \<rparr>"

definition empty_it :: cr_item where
  "empty_it = \<lparr> it_title = Absent, it_author = Absent, it_issued = Absent, it_DOI = Absent,
      it_URL = Absent, it_container_title = Absent \<rparr>"

text \<open>A request to Crossref, as opposed to one to Semantic Scholar.\<close>

definition is_crossref :: "request \<Rightarrow> bool" where
  "is_crossref r = (case r of CrossrefGet q rows flt \<Rightarrow> True | S2Get q lim \<Rightarrow> False)"

text \<open>A response whose one item has \<open>"citationCount": null\<close>.\<close>

definition null_count_item :: s2_item where
  "null_count_item = empty_item \<lparr> item_title := Val ''T'', item_citationCount := Null \<rparr>"

definition null_count_world :: world where
  "null_count_world =
     \<lparr> s2_api = (\<lambda>log q lim. Json (Val [null_count_item])),
       crossref_api = (\<lambda>log q rows flt. Json Absent) \<rparr>"




text \<open>
  A world in which the query \<open>q\<close> finds paper \<open>A\<close>, the query \<open>q Nature\<close> finds paper
  \<open>B\<close>, both in the venue \<open>Nature\<close>, and every other request fails.
\<close>

definition nature_item :: "string \<Rightarrow> s2_item" where
  "nature_item t = empty_item \<lparr> item_title := Val t, item_venue := Val ''Nature'' \<rparr>"

definition nature_record :: "string \<Rightarrow> paper" where
  "nature_record t = \<lparr> title = t, authors = no_authors, year = None, citations = None,
      venue = Some ''Nature'', venue_all = Some ''Nature'', doi = None, url = None,
      pdf = None, abstract = no_abstract, source = ''Semantic Scholar'' \<rparr>"

definition nature_world :: world where
  "nature_world =
     \<lparr> s2_api = (\<lambda>log q lim.
          if q = ''q'' then Json (Val [nature_item ''A''])
          else if q = ''q Nature'' then Json (Val [nature_item ''B''])
          else Raised Timeout),
       crossref_api = (\<lambda>log q rows flt. Raised (HTTPError 503)) \<rparr>"

text \<open>
  The world \<open>quiet w\<close> answers as \<open>w\<close> does, but where \<open>w\<close> fails it delivers the empty
  JSON object; in \<open>dead_world f\<close> every request fails with \<open>f\<close>.
\<close>

definition quiet :: "world \<Rightarrow> world" where
  "quiet w =
     \<lparr> s2_api = (\<lambda>log q lim.
          case s2_api w log q lim of Raised f \<Rightarrow> Json Absent | Json d \<Rightarrow> Json d),
       crossref_api = (\<lambda>log q rows flt.
          case crossref_api w log q rows flt of Raised f \<Rightarrow> Json Absent | Json d \<Rightarrow> Json d) \<rparr>"

definition dead_world :: "failure \<Rightarrow> world" where
  "dead_world f =
     \<lparr> s2_api = (\<lambda>log q lim. Raised f), crossref_api = (\<lambda>log q rows flt. Raised f) \<rparr>"

text \<open>
  A world in which the alias query \<open>q NeurIPS\<close> cannot connect, the alias query \<open>q NIPS\<close>
  finds paper \<open>B\<close>, the two longer alias queries time out and Crossref sends no JSON.
\<close>

definition flaky_world :: world where
  "flaky_world =
     \<lparr> s2_api = (\<lambda>log q lim.
          if q = ''q'' then Json (Val [nature_item ''A''])
          else if q = ''q NeurIPS'' then Raised ConnectionError
          else if q = ''q NIPS'' then Json (Val [nature_item ''B''])
          else Raised Timeout),
       crossref_api = (\<lambda>log q rows flt. Raised JSONDecodeError) \<rparr>"

section \<open>Auxiliary definitions for the statements\<close>





section \<open>More example inputs\<close>







section \<open>Evaluation rules\<close>

lemmas str_eval = py_lower_def lower_char_def py_strip_def is_space_def char_of_eq_iff
  char_of_def bit_Suc_0_iff or_empty_def truthy_str_def

lemmas num_eval = py_str_year_def py_str_int_def nat_digits.simps digit_char_def

lemmas rec_eval = s2_record_def s2_authors_def cr_record_def cr_authors_def cr_year_def
  get_def get_or_def get_nested_def or_else_def doi_url_def first_or_def truthy_str_def
  empty_item_def empty_it_def Let_def

lemmas invoke_eval = invoke_def untruncated_def primary_results_def merged_results_def
  search_semantic_scholar_def search_crossref_def s2_parse_def cr_parse_def s2_skip_def
  year_skip_def truthy_int_def venue_given_def venue_filter_def venue_text_def cr_filter_def
  py_slice_to_def dedupe_key_def

section \<open>The venue alias table\<close>







section \<open>The DOI of a normalized record\<close>

lemma s2_record_doi:
  "s2_record item = Inr r \<Longrightarrow> doi r = doi_url (get_nested (item_externalIds item))"
  by (auto simp: s2_record_def Let_def split: sum.splits)

lemma cr_record_doi: "cr_record it = Inr r \<Longrightarrow> doi r = doi_url (get (it_DOI it))"
  by (auto simp: cr_record_def Let_def split: sum.splits)

text \<open>
  C2, as the claim states it, fails: a raw DOI that already is the URL gets the prefix a
  second time, in both clients, so the two records do not have the same \<open>doi\<close>.
\<close>

theorem doi_not_idempotent:
  "map_sum id doi (s2_record (empty_item \<lparr> item_externalIds := Val (Val ''10.1038/xyz'') \<rparr>))
     = Inr (Some ''https://doi.org/10.1038/xyz'')
   \<and> map_sum id doi
        (s2_record (empty_item \<lparr> item_externalIds := Val (Val ''https://doi.org/10.1038/xyz'') \<rparr>))
     = Inr (Some ''https://doi.org/https://doi.org/10.1038/xyz'')
   \<and> map_sum id doi (cr_record (empty_it \<lparr> it_DOI := Val ''10.1038/xyz'' \<rparr>))
     = Inr (Some ''https://doi.org/10.1038/xyz'')
   \<and> map_sum id doi (cr_record (empty_it \<lparr> it_DOI := Val ''https://doi.org/10.1038/xyz'' \<rparr>))
     = Inr (Some ''https://doi.org/https://doi.org/10.1038/xyz'')"
  by (simp add: rec_eval)

text \<open>
  C2, amended: both clients put \<open>https://doi.org/\<close> in front of every raw DOI that is not
  empty, whatever it starts with; so a bare identifier becomes the full URL, and nothing
  recognises a raw value that is a URL already.
\<close>

theorem doi_prefixed:
  "(s2_record item = Inr r \<and> get_nested (item_externalIds item) = Some raw \<and> raw \<noteq> []
      \<longrightarrow> doi r = Some (''https://doi.org/'' @ raw))
   \<and> (cr_record it = Inr r' \<and> get (it_DOI it) = Some raw \<and> raw \<noteq> []
      \<longrightarrow> doi r' = Some (''https://doi.org/'' @ raw))"
  using s2_record_doi [of item r] cr_record_doi [of it r']
  by (auto simp: doi_url_def truthy_str_def)

theorem doi_prefixed_witness:
  "map_sum id doi (s2_record (empty_item \<lparr> item_externalIds := Val (Val ''10.1038/xyz'') \<rparr>))
     = Inr (Some ''https://doi.org/10.1038/xyz'')
   \<and> map_sum id doi (cr_record (empty_it \<lparr> it_DOI := Val ''10.1038/xyz'' \<rparr>))
     = Inr (Some ''https://doi.org/10.1038/xyz'')"
proof -
  obtain r where r: "s2_record (empty_item \<lparr> item_externalIds := Val (Val ''10.1038/xyz'') \<rparr>) = Inr r"
    by (simp add: rec_eval)
  obtain r' where r': "cr_record (empty_it \<lparr> it_DOI := Val ''10.1038/xyz'' \<rparr>) = Inr r'"
    by (simp add: rec_eval)
  have g: "get_nested (item_externalIds (empty_item \<lparr> item_externalIds := Val (Val ''10.1038/xyz'') \<rparr>))
             = Some ''10.1038/xyz''"
    by (simp add: rec_eval)
  have g': "get (it_DOI (empty_it \<lparr> it_DOI := Val ''10.1038/xyz'' \<rparr>)) = Some ''10.1038/xyz''"
    by (simp add: rec_eval)
  show ?thesis
    using r r' g g'
      doi_prefixed [of "empty_item \<lparr> item_externalIds := Val (Val ''10.1038/xyz'') \<rparr>" r
        "''10.1038/xyz''" "empty_it \<lparr> it_DOI := Val ''10.1038/xyz'' \<rparr>" r']
    by simp
qed

section \<open>The filters of the Semantic Scholar client\<close>



lemma year_skip_needs_both:
  "year_skip year_from year_to item \<Longrightarrow>
     (\<exists>y. get (item_year item) = Some y \<and>
        ((\<exists>f. year_from = Some f \<and> y < f) \<or> (\<exists>t. year_to = Some t \<and> t < y)))"
  by (auto simp: year_skip_def truthy_int_def Let_def split: option.splits if_splits)

lemma absent_count_is_zero:
  "\<not> year_skip year_from year_to item \<Longrightarrow> item_citationCount item = Absent \<Longrightarrow>
     s2_skip year_from year_to (Some m) item = Inr (0 < m)"
  by (simp add: s2_skip_def get_or_def)

lemma null_count_is_error:
  "\<not> year_skip year_from year_to item \<Longrightarrow> item_citationCount item = Null \<Longrightarrow>
     s2_skip year_from year_to (Some m) item = Inl TypeError"
  by (simp add: s2_skip_def get_or_def)

lemma s2_record_citations:
  "s2_record item = Inr r \<Longrightarrow> citations r = get (item_citationCount item)"
  by (auto simp: s2_record_def Let_def split: sum.splits)

text \<open>
  C6 does not hold of the code: with \<open>min_citations\<close> given, an item whose
  \<open>citationCount\<close> is \<open>null\<close> is not compared as zero. Line 116 compares \<open>None\<close> with
  an \<open>int\<close>, which raises \<open>TypeError\<close> outside the \<open>try\<close> block, and the exception leaves
  \<open>_search_semantic_scholar\<close> and \<open>invoke\<close>.
\<close>

theorem null_citation_count_raises:
  "s2_skip None None (Some 0) null_count_item = Inl TypeError
   \<and> search_semantic_scholar null_count_world ''q'' None None (Some 0) 5 []
       = (Inl TypeError, [S2Get ''q'' 5])
   \<and> invoke null_count_world ''q'' None None (Some 0) None 5 [] = (Inl TypeError, [S2Get ''q'' 5])"
  by (simp add: null_count_item_def null_count_world_def invoke_eval rec_eval)

section \<open>Slices, white space and the request log\<close>

lemma py_slice_to_nonneg: "0 \<le> n \<Longrightarrow> py_slice_to n xs = take (nat n) xs"
  by (simp add: py_slice_to_def)

lemma py_slice_to_Nil [simp]: "py_slice_to n [] = []"
  by (simp add: py_slice_to_def)





lemma search_semantic_scholar_log:
  "snd (search_semantic_scholar w query year_from year_to min_citations limit log)
     = log @ [S2Get query (max 1 limit)]"
  by (simp add: search_semantic_scholar_def Let_def)

lemma search_crossref_log:
  "snd (search_crossref w query year_from year_to limit log)
     = log @ [CrossrefGet query (max 1 limit) (cr_filter year_from year_to)]"
  by (simp add: search_crossref_def Let_def)

lemma s2_not_crossref: "\<not> is_crossref (S2Get q l)"
  by (simp add: is_crossref_def)

section \<open>\<open>invoke\<close> without a venue\<close>



section \<open>The Crossref fallback\<close>

lemma alias_loop_log:
  "filter is_crossref (snd (alias_loop w query year_from year_to min_citations max_results as acc log))
     = filter is_crossref log"
proof (induction as arbitrary: acc log)
  case Nil
  then show ?case by simp
next
  case (Cons a as)
  obtain x l where s: "search_semantic_scholar w (query @ '' '' @ a) year_from year_to
      min_citations max_results log = (x, l)"
    by (cases "search_semantic_scholar w (query @ '' '' @ a) year_from year_to
      min_citations max_results log")
  have l: "l = log @ [S2Get (query @ '' '' @ a) (max 1 max_results)]"
    using search_semantic_scholar_log [of w "query @ '' '' @ a" year_from year_to min_citations
        max_results log] s by simp
  show ?case
  proof (cases x)
    case (Inl e)
    then show ?thesis using s l by (simp add: s2_not_crossref)
  next
    case (Inr more_records)
    then show ?thesis using s l Cons.IH [of "merge_more acc more_records" l]
      by (simp add: s2_not_crossref)
  qed
qed

lemma merged_results_log:
  "filter is_crossref (snd (merged_results w query year_from year_to min_citations venue'
       max_results log)) = filter is_crossref log"
proof -
  obtain x l where s: "search_semantic_scholar w query year_from year_to min_citations
      max_results log = (x, l)"
    by (cases "search_semantic_scholar w query year_from year_to min_citations max_results log")
  have l: "filter is_crossref l = filter is_crossref log"
    using search_semantic_scholar_log [of w query year_from year_to min_citations max_results log] s
    by (simp add: s2_not_crossref)
  show ?thesis
  proof (cases x)
    case (Inl e)
    then show ?thesis using s l by (simp add: merged_results_def)
  next
    case (Inr base)
    show ?thesis
      using s l Inr
        alias_loop_log [of w query year_from year_to min_citations max_results
          "venue_aliases venue'" "(base, set (map dedupe_key base))" l]
      by (auto simp: merged_results_def split: prod.splits sum.splits)
  qed
qed

lemma primary_results_log:
  "filter is_crossref (snd (primary_results w query year_from year_to min_citations venue'
       max_results log)) = filter is_crossref log"
  using merged_results_log [of w query year_from year_to min_citations venue' max_results log]
  by (auto simp: primary_results_def split: prod.splits sum.splits)

text \<open>
  C4: when lines 28 to 65 leave an empty list (the base query and every alias query
  found nothing), \<open>invoke\<close> returns what \<open>_search_crossref\<close> returns for the original
  query and the two year bounds, cut by \<open>[:max_results]\<close> and not filtered by venue; when
  they leave a list that is not empty, that list is cut and returned and no request goes
  to Crossref. (For \<open>max_results \<ge> 0\<close> the cut \<open>py_slice_to\<close> is \<open>take\<close>, by
  \<open>py_slice_to_nonneg\<close>.)
\<close>

theorem fallback_when_empty:
  "(primary_results w query year_from year_to min_citations venue' max_results log = (Inr [], log2)
      \<longrightarrow> invoke w query year_from year_to min_citations venue' max_results log =
           (case search_crossref w query year_from year_to max_results log2 of
              (Inl e, log3) \<Rightarrow> (Inl e, log3)
            | (Inr fallback, log3) \<Rightarrow> (Inr (py_slice_to max_results fallback), log3)))
   \<and> (primary_results w query year_from year_to min_citations venue' max_results log = (Inr rs, log2)
        \<and> rs \<noteq> []
      \<longrightarrow> invoke w query year_from year_to min_citations venue' max_results log =
             (Inr (py_slice_to max_results rs), log2)
          \<and> filter is_crossref log2 = filter is_crossref log)"
proof -
  have a: "invoke w query year_from year_to min_citations venue' max_results log =
           (case search_crossref w query year_from year_to max_results log2 of
              (Inl e, log3) \<Rightarrow> (Inl e, log3)
            | (Inr fallback, log3) \<Rightarrow> (Inr (py_slice_to max_results fallback), log3))"
    if "primary_results w query year_from year_to min_citations venue' max_results log = (Inr [], log2)"
    using that by (simp add: invoke_def untruncated_def split: prod.splits sum.splits)
  have b: "invoke w query year_from year_to min_citations venue' max_results log =
             (Inr (py_slice_to max_results rs), log2)
          \<and> filter is_crossref log2 = filter is_crossref log"
    if "primary_results w query year_from year_to min_citations venue' max_results log = (Inr rs, log2)"
      and "rs \<noteq> []"
    using that primary_results_log [of w query year_from year_to min_citations venue' max_results log]
    by (simp add: invoke_def untruncated_def)
  from a b show ?thesis by blast
qed

theorem fallback_when_empty_witness:
  "primary_results nature_world ''x'' None None None (Some ''Nature'') 5 [] =
       (Inr [], [S2Get ''x'' 5, S2Get ''x Nature'' 5])
   \<and> invoke nature_world ''x'' None None None (Some ''Nature'') 5 [] =
       (Inr [], [S2Get ''x'' 5, S2Get ''x Nature'' 5, CrossrefGet ''x'' 5 None])
   \<and> primary_results nature_world ''q'' None None None (Some ''Nature'') 5 [] =
       (Inr [nature_record ''A'', nature_record ''B''], [S2Get ''q'' 5, S2Get ''q Nature'' 5])
   \<and> invoke nature_world ''q'' None None None (Some ''Nature'') 5 [] =
       (Inr [nature_record ''A'', nature_record ''B''], [S2Get ''q'' 5, S2Get ''q Nature'' 5])"
proof -
  have p0: "primary_results nature_world ''x'' None None None (Some ''Nature'') 5 [] =
       (Inr [], [S2Get ''x'' 5, S2Get ''x Nature'' 5])"
    by (simp add: nature_world_def nature_item_def nature_record_def invoke_eval rec_eval str_eval
        venue_aliases_def aliases_def)
  have c0: "search_crossref nature_world ''x'' None None 5 [S2Get ''x'' 5, S2Get ''x Nature'' 5] =
       (Inr [], [S2Get ''x'' 5, S2Get ''x Nature'' 5, CrossrefGet ''x'' 5 None])"
    by (simp add: nature_world_def invoke_eval)
  have p1: "primary_results nature_world ''q'' None None None (Some ''Nature'') 5 [] =
       (Inr [nature_record ''A'', nature_record ''B''], [S2Get ''q'' 5, S2Get ''q Nature'' 5])"
    by (simp add: nature_world_def nature_item_def nature_record_def invoke_eval rec_eval str_eval
        venue_aliases_def aliases_def)
  show ?thesis
    using p0 c0 p1
      fallback_when_empty [of nature_world "''x''" None None None "Some ''Nature''" 5 "[]"
        "[S2Get ''x'' 5, S2Get ''x Nature'' 5]" "[]"]
      fallback_when_empty [of nature_world "''q''" None None None "Some ''Nature''" 5 "[]"
        "[S2Get ''q'' 5, S2Get ''q Nature'' 5]" "[nature_record ''A'', nature_record ''B'']"]
    by (simp add: py_slice_to_def)
qed

section \<open>Truncation\<close>

text \<open>
  C8, as the claim states it, fails for a negative \<open>max_results\<close>: \<open>results[:-1]\<close> drops
  the last record only, so two merged records give a list of length 1, which is more
  than \<open>-1\<close>.
\<close>

theorem negative_max_results:
  "invoke nature_world ''q'' None None None (Some ''Nature'') (- 1) [] =
     (Inr [nature_record ''A''], [S2Get ''q'' 1, S2Get ''q Nature'' 1])
   \<and> \<not> int (length [nature_record ''A'']) \<le> - 1"
  by (simp add: nature_world_def nature_item_def nature_record_def invoke_eval rec_eval str_eval
        venue_aliases_def aliases_def)

text \<open>
  C8, amended: \<open>invoke\<close> returns \<open>results[:max_results]\<close> of the list that lines 28 to 74
  produce, in the same order; for \<open>max_results \<ge> 0\<close> this is the list of its first
  \<open>max_results\<close> elements, of length at most \<open>max_results\<close>.
\<close>

theorem truncation:
  "invoke w query year_from year_to min_citations venue' max_results log =
     (case untruncated w query year_from year_to min_citations venue' max_results log of
        (Inl e, log3) \<Rightarrow> (Inl e, log3)
      | (Inr us, log3) \<Rightarrow> (Inr (py_slice_to max_results us), log3))
   \<and> (0 \<le> max_results
        \<and> untruncated w query year_from year_to min_citations venue' max_results log = (Inr us, log3)
      \<longrightarrow> invoke w query year_from year_to min_citations venue' max_results log =
             (Inr (take (nat max_results) us), log3)
          \<and> int (length (take (nat max_results) us)) \<le> max_results)"
  by (auto simp: invoke_def py_slice_to_nonneg split: prod.splits sum.splits)

theorem truncation_witness:
  "0 \<le> (1 :: int)
   \<and> untruncated nature_world ''q'' None None None (Some ''Nature'') 1 [] =
       (Inr [nature_record ''A'', nature_record ''B''], [S2Get ''q'' 1, S2Get ''q Nature'' 1])
   \<and> invoke nature_world ''q'' None None None (Some ''Nature'') 1 [] =
       (Inr [nature_record ''A''], [S2Get ''q'' 1, S2Get ''q Nature'' 1])"
proof -
  have u: "untruncated nature_world ''q'' None None None (Some ''Nature'') 1 [] =
       (Inr [nature_record ''A'', nature_record ''B''], [S2Get ''q'' 1, S2Get ''q Nature'' 1])"
    by (simp add: nature_world_def nature_item_def nature_record_def invoke_eval rec_eval str_eval
        venue_aliases_def aliases_def)
  show ?thesis
    using u truncation [of nature_world "''q''" None None None "Some ''Nature''" 1 "[]"
        "[nature_record ''A'', nature_record ''B'']" "[S2Get ''q'' 1, S2Get ''q Nature'' 1]"]
    by (simp add: py_slice_to_def)
qed

section \<open>Failed requests\<close>

lemma s2_raised:
  "s2_api w log query (max 1 limit) = Raised f \<Longrightarrow>
     search_semantic_scholar w query year_from year_to min_citations limit log
       = (Inr [], log @ [S2Get query (max 1 limit)])"
  by (simp add: search_semantic_scholar_def Let_def)

lemma crossref_raised:
  "crossref_api w log query (max 1 limit) (cr_filter year_from year_to) = Raised f \<Longrightarrow>
     search_crossref w query year_from year_to limit log
       = (Inr [], log @ [CrossrefGet query (max 1 limit) (cr_filter year_from year_to)])"
  by (simp add: search_crossref_def Let_def)

lemma s2_quiet:
  "search_semantic_scholar (quiet w) query year_from year_to min_citations limit log
     = search_semantic_scholar w query year_from year_to min_citations limit log"
  by (simp add: search_semantic_scholar_def quiet_def Let_def s2_parse_def get_or_def
        split: response.splits)

lemma crossref_quiet:
  "search_crossref (quiet w) query year_from year_to limit log
     = search_crossref w query year_from year_to limit log"
  by (simp add: search_crossref_def quiet_def Let_def cr_parse_def split: response.splits)

lemma alias_loop_quiet:
  "alias_loop (quiet w) query year_from year_to min_citations max_results as acc log
     = alias_loop w query year_from year_to min_citations max_results as acc log"
  by (induction as arbitrary: acc log) (auto simp: s2_quiet split: prod.splits sum.splits)

lemma invoke_quiet:
  "invoke (quiet w) query year_from year_to min_citations venue' max_results log
     = invoke w query year_from year_to min_citations venue' max_results log"
proof -
  have m: "merged_results (quiet w) query year_from year_to min_citations venue' max_results log
      = merged_results w query year_from year_to min_citations venue' max_results log"
    by (auto simp: merged_results_def s2_quiet alias_loop_quiet split: prod.splits sum.splits)
  have p: "primary_results (quiet w) query year_from year_to min_citations venue' max_results log
      = primary_results w query year_from year_to min_citations venue' max_results log"
    by (simp add: primary_results_def m)
  have u: "untruncated (quiet w) query year_from year_to min_citations venue' max_results log
      = untruncated w query year_from year_to min_citations venue' max_results log"
    by (auto simp: untruncated_def p crossref_quiet split: prod.splits sum.splits)
  show ?thesis by (simp add: invoke_def u)
qed

lemma alias_loop_dead:
  "alias_loop (dead_world f) query year_from year_to min_citations max_results as acc log
     = (Inr acc, log @ map (\<lambda>a. S2Get (query @ '' '' @ a) (max 1 max_results)) as)"
proof (induction as arbitrary: log)
  case Nil
  then show ?case by simp
next
  case (Cons a as)
  have "search_semantic_scholar (dead_world f) (query @ '' '' @ a) year_from year_to
          min_citations max_results log
        = (Inr [], log @ [S2Get (query @ '' '' @ a) (max 1 max_results)])"
    by (rule s2_raised [of _ _ _ _ f]) (simp add: dead_world_def)
  then show ?case using Cons.IH by simp
qed

lemma invoke_dead:
  "invoke (dead_world f) query year_from year_to min_citations venue' max_results log =
     (Inr [],
      log @ S2Get query (max 1 max_results) #
        (if venue_given venue'
         then map (\<lambda>a. S2Get (query @ '' '' @ a) (max 1 max_results)) (venue_aliases venue')
         else []) @
        [CrossrefGet query (max 1 max_results) (cr_filter year_from year_to)])"
proof -
  have b: "search_semantic_scholar (dead_world f) query year_from year_to min_citations
             max_results log = (Inr [], log @ [S2Get query (max 1 max_results)])"
    by (rule s2_raised [of _ _ _ _ f]) (simp add: dead_world_def)
  have c: "search_crossref (dead_world f) query year_from year_to max_results l
             = (Inr [], l @ [CrossrefGet query (max 1 max_results) (cr_filter year_from year_to)])"
    for l
    by (rule crossref_raised [of _ _ _ _ _ _ f]) (simp add: dead_world_def)
  show ?thesis
    by (simp add: invoke_def untruncated_def primary_results_def merged_results_def b c
          alias_loop_dead venue_filter_def)
qed

text \<open>
  C9: when the request of a client fails (connection, timeout, HTTP status, or a body that
  is not JSON), the client returns the empty list and raises nothing; in the alias loop a
  failed query changes nothing and the loop goes on with the next alias. For \<open>invoke\<close> a
  failed request is the same as an empty response, and when every request fails
  \<open>invoke\<close> has made the base query, every alias query and the Crossref query, and
  returns the empty list.
\<close>

theorem transport_failure_is_empty:
  "(s2_api w log query (max 1 limit) = Raised f \<longrightarrow>
      search_semantic_scholar w query year_from year_to min_citations limit log
        = (Inr [], log @ [S2Get query (max 1 limit)]))
   \<and> (crossref_api w log query (max 1 limit) (cr_filter year_from year_to) = Raised f \<longrightarrow>
      search_crossref w query year_from year_to limit log
        = (Inr [], log @ [CrossrefGet query (max 1 limit) (cr_filter year_from year_to)]))
   \<and> (s2_api w log (query @ '' '' @ alias) (max 1 limit) = Raised f \<longrightarrow>
      alias_loop w query year_from year_to min_citations limit (alias # rest) acc log
        = alias_loop w query year_from year_to min_citations limit rest acc
            (log @ [S2Get (query @ '' '' @ alias) (max 1 limit)]))
   \<and> invoke (quiet w) query year_from year_to min_citations venue' limit log
        = invoke w query year_from year_to min_citations venue' limit log
   \<and> invoke (dead_world f) query year_from year_to min_citations venue' limit log =
       (Inr [],
        log @ S2Get query (max 1 limit) #
          (if venue_given venue'
           then map (\<lambda>a. S2Get (query @ '' '' @ a) (max 1 limit)) (venue_aliases venue')
           else []) @
          [CrossrefGet query (max 1 limit) (cr_filter year_from year_to)])"
proof -
  have "alias_loop w query year_from year_to min_citations limit (alias # rest) acc log
        = alias_loop w query year_from year_to min_citations limit rest acc
            (log @ [S2Get (query @ '' '' @ alias) (max 1 limit)])"
    if "s2_api w log (query @ '' '' @ alias) (max 1 limit) = Raised f"
    using s2_raised [OF that, of year_from year_to min_citations] by simp
  then show ?thesis
    using s2_raised [of w log query limit f] crossref_raised [of w log query limit _ _ f]
    by (simp add: invoke_quiet invoke_dead)
qed

theorem transport_failure_is_empty_witness:
  "s2_api flaky_world [S2Get ''q'' 5] ''q NeurIPS'' (max 1 5) = Raised ConnectionError
   \<and> search_semantic_scholar flaky_world ''q NeurIPS'' None None None 5 [S2Get ''q'' 5]
       = (Inr [], [S2Get ''q'' 5, S2Get ''q NeurIPS'' 5])
   \<and> crossref_api flaky_world [] ''q'' (max 1 5) (cr_filter None None) = Raised JSONDecodeError
   \<and> search_crossref flaky_world ''q'' None None 5 [] = (Inr [], [CrossrefGet ''q'' 5 None])
   \<and> alias_loop flaky_world ''q'' None None None 5 [''NeurIPS'', ''NIPS'']
        ([nature_record ''A''], {dedupe_key (nature_record ''A'')}) [S2Get ''q'' 5]
       = alias_loop flaky_world ''q'' None None None 5 [''NIPS'']
        ([nature_record ''A''], {dedupe_key (nature_record ''A'')})
        [S2Get ''q'' 5, S2Get ''q NeurIPS'' 5]
   \<and> invoke flaky_world ''q'' None None None (Some ''NeurIPS'') 5 [] =
       (Inr [nature_record ''A'', nature_record ''B''],
        [S2Get ''q'' 5, S2Get ''q NeurIPS'' 5, S2Get ''q NIPS'' 5,
         S2Get ''q Neural Information Processing Systems'' 5,
         S2Get ''q Advances in Neural Information Processing Systems'' 5])"
proof -
  have h1: "s2_api flaky_world [S2Get ''q'' 5] ''q NeurIPS'' (max 1 5) = Raised ConnectionError"
    by (simp add: flaky_world_def)
  have h2: "crossref_api flaky_world [] ''q'' (max 1 5) (cr_filter None None) = Raised JSONDecodeError"
    by (simp add: flaky_world_def)
  have i: "invoke flaky_world ''q'' None None None (Some ''NeurIPS'') 5 [] =
       (Inr [nature_record ''A'', nature_record ''B''],
        [S2Get ''q'' 5, S2Get ''q NeurIPS'' 5, S2Get ''q NIPS'' 5,
         S2Get ''q Neural Information Processing Systems'' 5,
         S2Get ''q Advances in Neural Information Processing Systems'' 5])"
    by (simp add: flaky_world_def nature_item_def nature_record_def invoke_eval rec_eval str_eval
        venue_aliases_def aliases_def)
  show ?thesis
    using h1 h2 i
      transport_failure_is_empty [of flaky_world "[S2Get ''q'' 5]" "''q NeurIPS''" 5
        ConnectionError None None None]
      transport_failure_is_empty [of flaky_world "[]" "''q''" 5 JSONDecodeError None None]
      transport_failure_is_empty [of flaky_world "[S2Get ''q'' 5]" "''q''" 5 ConnectionError
        None None None "''NeurIPS''" "[''NIPS'']"
        "([nature_record ''A''], {dedupe_key (nature_record ''A'')})"]
    by (simp add: cr_filter_def truthy_int_def)
qed

section \<open>The deduplication key\<close>














section \<open>Deduplication in the merge\<close>



lemma merge_more_one:
  "merge_more (results, seen) [r] =
     (if dedupe_key r \<in> seen then (results, seen)
      else (results @ [r], insert (dedupe_key r) seen))"
  by (simp add: Let_def)








section \<open>The venue filter\<close>




end
